theory Spec2Isabelle
  imports Complex_Main "HOL-Library.Sublist" "HOL-Library.AList"
    "HOL-Library.List_Lexorder" "HOL-Library.Product_Lexorder"
begin

section \<open>Text as Python sees it\<close>

text \<open>
  A Python \<open>str\<close> is a sequence of Unicode code points, so a text is a list of code
  points here (the en dash of the scorecard pattern is code point 8211 and does not fit an
  8-bit character). \<open>py\<close> reads an ASCII literal as such a text.

  \<open>is_space\<close> is the set that both \<open>str.strip()\<close> and the pattern class \<open>\s\<close> use
  (\<open>str.isspace\<close>), listed in full. \<open>lower_cp\<close> gives \<open>str.lower()\<close> on the code points
  below 256; above it the model leaves a code point as it is. \<open>is_digit\<close> is the class
  \<open>\d\<close> on the ASCII digits; the decimal digits of other scripts are not modelled.
\<close>

type_synonym pystr = "nat list"

definition py :: "string \<Rightarrow> pystr" where
  "py s = map of_char s"

definition is_space :: "nat \<Rightarrow> bool" where
  "is_space c = (c \<in> set [9, 10, 11, 12, 13, 28, 29, 30, 31, 32, 133, 160, 5760,
      8192, 8193, 8194, 8195, 8196, 8197, 8198, 8199, 8200, 8201, 8202,
      8232, 8233, 8239, 8287, 12288])"

definition is_digit :: "nat \<Rightarrow> bool" where
  "is_digit c = (48 \<le> c \<and> c \<le> 57)"

definition lower_cp :: "nat \<Rightarrow> nat" where
  "lower_cp c =
     (if 65 \<le> c \<and> c \<le> 90 then c + 32
      else if 192 \<le> c \<and> c \<le> 222 \<and> c \<noteq> 215 then c + 32
      else c)"

definition lower :: "pystr \<Rightarrow> pystr" where
  "lower s = map lower_cp s"

definition strip :: "pystr \<Rightarrow> pystr" where
  "strip s = rev (dropWhile is_space (rev (dropWhile is_space s)))"

text \<open>\<open>SPACE_RE.sub(" ", s)\<close>: every maximal run of white space becomes one space.\<close>

function collapse_ws :: "pystr \<Rightarrow> pystr" where
  "collapse_ws [] = []"
| "collapse_ws (c # cs) =
     (if is_space c then 32 # collapse_ws (dropWhile is_space cs)
      else c # collapse_ws cs)"
  by pat_completeness auto
termination
  by (relation "measure length") (auto simp: length_dropWhile_le less_Suc_eq_le)

text \<open>\<open>tok in m\<close> on strings: \<open>tok\<close> occurs in \<open>m\<close> as a contiguous piece.\<close>

fun contains :: "pystr \<Rightarrow> pystr \<Rightarrow> bool" where
  "contains tok [] = (tok = [])"
| "contains tok (c # cs) = (prefix tok (c # cs) \<or> contains tok cs)"

section \<open>The outcome classifier (classify\_methods.py)\<close>

text \<open>
  A cell of a pandas row is a text or missing (NaN): \<open>None\<close> is the missing cell, and
  also what \<open>row.get\<close> finds for an absent column, since \<open>normalize_text\<close> sends both
  NaN and the default \<open>""\<close> to the empty text.
\<close>

definition normalize_text :: "pystr option \<Rightarrow> pystr" where
  "normalize_text s = (case s of None \<Rightarrow> [] | Some t \<Rightarrow> collapse_ws (strip t))"

definition FINISH_TOKENS :: "pystr list" where
  "FINISH_TOKENS = [py ''ko'', py ''tko'', py ''submission'', py ''sub'', py ''dq'',
     py ''disqualification'', py ''doctor stoppage'', py ''retirement'']"

definition method_is_finish :: "pystr \<Rightarrow> bool" where
  "method_is_finish method =
     (let m = lower (normalize_text (Some method))
      in list_ex (\<lambda>tok. contains tok m) FINISH_TOKENS)"

definition method_is_decision :: "pystr \<Rightarrow> bool" where
  "method_is_decision method =
     contains (py ''decision'') (lower (normalize_text (Some method)))"

definition method_decision_type :: "pystr \<Rightarrow> string" where
  "method_decision_type method =
     (let m = lower (normalize_text (Some method))
      in if contains (py ''split'') m then ''split''
         else if contains (py ''majority'') m then ''majority''
         else if contains (py ''unanimous'') m then ''unanimous''
         else ''decision'')"

subsection \<open>Scorecard margins\<close>

text \<open>
  \<open>SCORE_RE\<close> is \<open>(\d+)\s*[-\<dots>]\s*(\d+)\<close>, the bracket holding the hyphen and the en
  dash. \<open>match_score\<close> matches it at the head of a text and returns the two digit groups
  and the text after the match. The three classes (digit, white space, dash) are
  disjoint, so the greedy match is the only one and backtracking finds no other.
  \<open>findall_score\<close> is \<open>SCORE_RE.findall\<close>: the leftmost match, then on from its end;
  where no match starts, on from the next code point.
\<close>

definition is_dash :: "nat \<Rightarrow> bool" where
  "is_dash c = (c = 45 \<or> c = 8211)"

definition match_score :: "pystr \<Rightarrow> (pystr \<times> pystr \<times> pystr) option" where
  "match_score s =
     (let a = takeWhile is_digit s;
          s2 = dropWhile is_space (dropWhile is_digit s)
      in if a = [] then None
         else (case s2 of
                 [] \<Rightarrow> None
               | d # s3 \<Rightarrow>
                   if is_dash d then
                     (let s4 = dropWhile is_space s3;
                          b = takeWhile is_digit s4
                      in if b = [] then None
                         else Some (a, b, dropWhile is_digit s4))
                   else None))"

lemma match_score_shorter:
  "match_score s = Some (a, b, r) \<Longrightarrow> length r < length s"
proof -
  assume m: "match_score s = Some (a, b, r)"
  have dw: "\<And>P (xs::pystr). length (dropWhile P xs) \<le> length xs"
    by (rule length_dropWhile_le)
  from m obtain d s3 where
    s2: "dropWhile is_space (dropWhile is_digit s) = d # s3"
    and r: "r = dropWhile is_digit (dropWhile is_space s3)"
    by (auto simp: match_score_def Let_def split: if_splits list.splits)
  have "length r \<le> length s3"
    unfolding r using dw [of is_digit "dropWhile is_space s3"] dw [of is_space s3]
    by linarith
  moreover have "length (d # s3) \<le> length s"
    unfolding s2 [symmetric]
    using dw [of is_space "dropWhile is_digit s"] dw [of is_digit s] by linarith
  ultimately show ?thesis by simp
qed

function findall_score :: "pystr \<Rightarrow> (pystr \<times> pystr) list" where
  "findall_score [] = []"
| "findall_score (c # cs) =
     (case match_score (c # cs) of
        None \<Rightarrow> findall_score cs
      | Some (a, b, r) \<Rightarrow> (a, b) # findall_score r)"
  by pat_completeness auto
termination
  by (relation "measure length") (auto dest: match_score_shorter)

text \<open>\<open>int(a)\<close> on a group of ASCII digits.\<close>

definition int_of_digits :: "pystr \<Rightarrow> int" where
  "int_of_digits ds = foldl (\<lambda>acc c. 10 * acc + (int c - 48)) 0 ds"

definition replace_comma :: "pystr \<Rightarrow> pystr" where
  "replace_comma s = map (\<lambda>c. if c = 44 then 32 else c) s"

definition parse_scorecard_margins :: "pystr \<Rightarrow> int list" where
  "parse_scorecard_margins details_text =
     (if strip details_text = [] then []
      else map (\<lambda>(a, b). \<bar>int_of_digits a - int_of_digits b\<bar>)
             (findall_score (replace_comma details_text)))"

subsection \<open>classify\_row\<close>

text \<open>
  The row as \<open>classify_row\<close> reads it. The scheduled round count is computed by the
  source and used in no result, so it is left out. The fourth component of the result is
  the list of margins; the source writes it out joined by commas (the empty list as the
  empty text).
\<close>

record bout_row =
  winner_label :: "pystr option"
  METHOD :: "pystr option"
  DETAILS :: "pystr option"

type_synonym classification = "string \<times> real \<times> string \<times> int list"

definition classify_row :: "'a bout_row_scheme \<Rightarrow> real \<Rightarrow> real \<Rightarrow> real \<Rightarrow> classification" where
  "classify_row row m_finish m_dom m_dec =
     (let outcome = normalize_text (winner_label row);
          method = normalize_text (METHOD row);
          details = normalize_text (DETAILS row)
      in if lower outcome = py ''draw'' then (''draw'', m_dec, ''outcome_draw'', [])
         else if lower outcome = py ''nc'' then (''nc'', m_dec, ''outcome_nc'', [])
         else if method_is_finish method \<and> \<not> method_is_decision method
           then (''finish'', m_finish, ''method_finish'', [])
         else if method_is_decision method then
           (let d_type = method_decision_type method
            in if d_type = ''split'' \<or> d_type = ''majority''
                 then (''decision_normal'', m_dec, ''method_'' @ d_type, [])
               else
                 (let margins = parse_scorecard_margins details
                  in if margins \<noteq> [] then
                       (if list_ex (\<lambda>m. 3 \<le> m) margins
                          then (''decision_dominant'', m_dom, ''details_any_margin_ge_3'', margins)
                        else if 2 \<le> length (filter (\<lambda>m. 2 \<le> m) margins)
                          then (''decision_dominant'', m_dom, ''details_two_cards_ge_2'', margins)
                        else (''decision_normal'', m_dec, ''details_small_margins'', margins))
                     else if d_type = ''unanimous''
                       then (''decision_dominant'', m_dom, ''method_unanimous_no_details'', [])
                     else (''decision_normal'', m_dec, ''method_generic_decision'', [])))
         else if list_ex (\<lambda>tok. contains tok (lower method)) FINISH_TOKENS
           then (''finish'', m_finish, ''method_finish_fallback'', [])
         else (''other'', m_dec, ''unknown_method'', []))"

definition category :: "classification \<Rightarrow> string" where
  "category c = fst c"

definition multiplier :: "classification \<Rightarrow> real" where
  "multiplier c = fst (snd c)"

definition basis :: "classification \<Rightarrow> string" where
  "basis c = fst (snd (snd c))"

text \<open>The method text of a row as the keyword tests see it: normalised and lower-cased.\<close>

definition method_text :: "'a bout_row_scheme \<Rightarrow> pystr" where
  "method_text row = lower (normalize_text (METHOD row))"

definition outcome_text :: "'a bout_row_scheme \<Rightarrow> pystr" where
  "outcome_text row = lower (normalize_text (winner_label row))"

section \<open>The rating engine (elo\_update.py)\<close>

text \<open>
  Python's floats are modelled as real numbers: the arithmetic of the engine is exact
  here, with no rounding, no NaN and no overflow. \<open>10 ** x\<close> is \<open>10 powr x\<close>. The
  exception the loop can raise in this arithmetic is the division by a zero \<open>scale\<close>;
  it ends the run, so it is a value of the result.
\<close>

datatype error = ZeroDivisionError

definition norm :: "pystr option \<Rightarrow> pystr" where
  "norm s = (case s of None \<Rightarrow> [] | Some t \<Rightarrow> collapse_ws (strip t))"

definition key_from_name :: "pystr \<Rightarrow> pystr" where
  "key_from_name name = lower (norm (Some name))"

definition logistic_prob :: "real \<Rightarrow> real \<Rightarrow> real \<Rightarrow> error + real" where
  "logistic_prob ra rb scale =
     (if scale = 0 then Inl ZeroDivisionError
      else Inr (1 / (1 + 10 powr ((rb - ra) / scale))))"

record EloConfig =
  base_rating :: real
  K :: real
  scale :: real

definition default_config :: EloConfig where
  "default_config = \<lparr>base_rating = 1500, K = 24, scale = 350\<rparr>"

text \<open>
  A row of the classified table: the columns of \<open>bout_row\<close> and those the engine reads.
  A date is a point in time as an integer, \<open>None\<close> the \<open>NaT\<close> that \<open>pd.to_datetime\<close>
  gives an unreadable date. \<open>method_multiplier\<close> is \<open>None\<close> where the cell does not
  convert to a finite float, which the source replaces by \<open>1.0\<close>.
\<close>

record fight_row = bout_row +
  DATE :: "int option"
  EVENT :: "pystr option"
  BOUT :: "pystr option"
  fighter_a_name :: "pystr option"
  fighter_b_name :: "pystr option"
  fighter_a_url :: "pystr option"
  fighter_b_url :: "pystr option"
  method_class :: "pystr option"
  method_multiplier :: "real option"

definition choose_fighter_id :: "fight_row \<Rightarrow> string \<Rightarrow> pystr \<times> pystr" where
  "choose_fighter_id row side =
     (let (url_col, name_col) =
            (if side = ''a'' then (fighter_a_url row, fighter_a_name row)
             else (fighter_b_url row, fighter_b_name row));
          name = norm name_col;
          url = norm url_col;
          fid = (if url \<noteq> [] then url else key_from_name name)
      in (fid, name))"

text \<open>\<open>str(cell)\<close>: a missing cell prints as \<open>nan\<close>.\<close>

definition str_cell :: "pystr option \<Rightarrow> pystr" where
  "str_cell c = (case c of None \<Rightarrow> py ''nan'' | Some t \<Rightarrow> t)"

definition outcome_scores :: "pystr \<Rightarrow> (real \<times> real) option" where
  "outcome_scores label =
     (let w = lower (strip label)
      in if w = py ''a'' then Some (1, 0)
         else if w = py ''b'' then Some (0, 1)
         else if w = py ''draw'' then Some (1 / 2, 1 / 2)
         else None)"

text \<open>One record of the audit log. The columns the source only copies from the input
  (\<open>rounds_scheduled\<close>, \<open>WEIGHTCLASS\<close>, \<open>METHOD\<close>, \<open>REFEREE\<close>, \<open>URL\<close>) are left out.\<close>

record history_row =
  hist_DATE :: "int option"
  hist_EVENT :: pystr
  hist_BOUT :: pystr
  fighter_a_id :: pystr
  fighter_b_id :: pystr
  hist_fighter_a_name :: pystr
  hist_fighter_b_name :: pystr
  pre_rating_a :: real
  pre_rating_b :: real
  p_A_win :: real
  hist_winner_label :: pystr
  hist_method_class :: pystr
  hist_method_multiplier :: real
  K_eff :: real
  post_rating_a :: real
  post_rating_b :: real

text \<open>
  The state of the loop. \<open>ratings\<close> is the \<open>defaultdict\<close> in insertion order (the
  snapshot walks it): reading a key that is absent inserts it at the base rating
  (\<open>ratings_touch\<close>), and assigning keeps the place of a key that is present. The four
  counters are \<open>defaultdict(int)\<close>, read with the default 0.
\<close>

record elo_state =
  ratings :: "(pystr \<times> real) list"
  names :: "pystr \<rightharpoonup> pystr"
  fights_ct :: "pystr \<Rightarrow> nat"
  wins_ct :: "pystr \<Rightarrow> nat"
  losses_ct :: "pystr \<Rightarrow> nat"
  draws_ct :: "pystr \<Rightarrow> nat"
  first_date :: "pystr \<rightharpoonup> int option"
  last_date :: "pystr \<rightharpoonup> int option"
  history_rows :: "history_row list"

definition init_state :: elo_state where
  "init_state = \<lparr>ratings = [], names = Map.empty, fights_ct = (\<lambda>_. 0),
     wins_ct = (\<lambda>_. 0), losses_ct = (\<lambda>_. 0), draws_ct = (\<lambda>_. 0),
     first_date = Map.empty, last_date = Map.empty, history_rows = []\<rparr>"

definition ratings_touch :: "real \<Rightarrow> (pystr \<times> real) list \<Rightarrow> pystr \<Rightarrow> (pystr \<times> real) list" where
  "ratings_touch base rs fid =
     (case map_of rs fid of None \<Rightarrow> rs @ [(fid, base)] | Some r \<Rightarrow> rs)"

definition ratings_get :: "real \<Rightarrow> (pystr \<times> real) list \<Rightarrow> pystr \<Rightarrow> real" where
  "ratings_get base rs fid = (case map_of rs fid of None \<Rightarrow> base | Some r \<Rightarrow> r)"

definition incr :: "(pystr \<Rightarrow> nat) \<Rightarrow> pystr \<Rightarrow> (pystr \<Rightarrow> nat)" where
  "incr ct fid = ct(fid := ct fid + 1)"

definition update_first_date :: "(pystr \<rightharpoonup> int option) \<Rightarrow> pystr \<Rightarrow> int option \<Rightarrow> (pystr \<rightharpoonup> int option)" where
  "update_first_date fd fid d =
     (case fd fid of
        None \<Rightarrow> fd(fid \<mapsto> d)
      | Some old \<Rightarrow>
          (case d of
             None \<Rightarrow> fd
           | Some t \<Rightarrow>
               (case old of
                  None \<Rightarrow> fd(fid \<mapsto> d)
                | Some t0 \<Rightarrow> if t < t0 then fd(fid \<mapsto> d) else fd)))"

definition update_last_date :: "(pystr \<rightharpoonup> int option) \<Rightarrow> pystr \<Rightarrow> int option \<Rightarrow> (pystr \<rightharpoonup> int option)" where
  "update_last_date ld fid d =
     (case ld fid of
        None \<Rightarrow> ld(fid \<mapsto> d)
      | Some old \<Rightarrow>
          (case d of
             None \<Rightarrow> ld
           | Some t \<Rightarrow>
               (case old of
                  None \<Rightarrow> ld(fid \<mapsto> d)
                | Some t0 \<Rightarrow> if t > t0 then ld(fid \<mapsto> d) else ld)))"

text \<open>The body of the loop of \<open>run_elo\<close> for one row.\<close>

definition process_row :: "EloConfig \<Rightarrow> elo_state \<Rightarrow> fight_row \<Rightarrow> error + elo_state" where
  "process_row cfg st row =
     (case outcome_scores (str_cell (winner_label row)) of
        None \<Rightarrow> Inr st
      | Some (s_a, s_b) \<Rightarrow>
          (let (fid_a, name_a) = choose_fighter_id row ''a'';
               (fid_b, name_b) = choose_fighter_id row ''b'';
               names1 = (names st)(fid_a \<mapsto> (if name_a \<noteq> [] then name_a else fid_a));
               names2 = names1(fid_b \<mapsto> (if name_b \<noteq> [] then name_b else fid_b));
               rs1 = ratings_touch (base_rating cfg) (ratings st) fid_a;
               ra = ratings_get (base_rating cfg) rs1 fid_a;
               rs2 = ratings_touch (base_rating cfg) rs1 fid_b;
               rb = ratings_get (base_rating cfg) rs2 fid_b;
               m = (case method_multiplier row of None \<Rightarrow> 1 | Some v \<Rightarrow> v)
           in case logistic_prob ra rb (scale cfg) of
                Inl e \<Rightarrow> Inl e
              | Inr p_a \<Rightarrow>
                  (let k_eff = K cfg * m;
                       ra_new = ra + k_eff * (s_a - p_a);
                       rb_new = rb + k_eff * (s_b - (1 - p_a));
                       rs3 = AList.update fid_b rb_new (AList.update fid_a ra_new rs2);
                       fights2 = incr (incr (fights_ct st) fid_a) fid_b;
                       (wins2, losses2, draws2) =
                         (if s_a = 1 then
                            (incr (wins_ct st) fid_a, incr (losses_ct st) fid_b, draws_ct st)
                          else if s_b = 1 then
                            (incr (wins_ct st) fid_b, incr (losses_ct st) fid_a, draws_ct st)
                          else (wins_ct st, losses_ct st, incr (incr (draws_ct st) fid_a) fid_b));
                       d = DATE row;
                       first1 = update_first_date (first_date st) fid_a d;
                       last1 = update_last_date (last_date st) fid_a d;
                       first2 = update_first_date first1 fid_b d;
                       last2 = update_last_date last1 fid_b d;
                       h = \<lparr>hist_DATE = d, hist_EVENT = norm (EVENT row),
                            hist_BOUT = norm (BOUT row),
                            fighter_a_id = fid_a, fighter_b_id = fid_b,
                            hist_fighter_a_name = the (names2 fid_a),
                            hist_fighter_b_name = the (names2 fid_b),
                            pre_rating_a = ra, pre_rating_b = rb, p_A_win = p_a,
                            hist_winner_label = lower (strip (str_cell (winner_label row))),
                            hist_method_class = norm (method_class row),
                            hist_method_multiplier = m, K_eff = k_eff,
                            post_rating_a = ra_new, post_rating_b = rb_new\<rparr>
                   in Inr \<lparr>ratings = rs3, names = names2, fights_ct = fights2,
                           wins_ct = wins2, losses_ct = losses2, draws_ct = draws2,
                           first_date = first2, last_date = last2,
                           history_rows = history_rows st @ [h]\<rparr>)))"

fun process_rows :: "EloConfig \<Rightarrow> elo_state \<Rightarrow> fight_row list \<Rightarrow> error + elo_state" where
  "process_rows cfg st [] = Inr st"
| "process_rows cfg st (row # rows) =
     (case process_row cfg st row of
        Inl e \<Rightarrow> Inl e
      | Inr st' \<Rightarrow> process_rows cfg st' rows)"

text \<open>
  \<open>sort_values(["DATE","EVENT","BOUT"], kind="stable")\<close>: a stable sort on the three
  columns in turn, a missing value after every value that is present.
\<close>

definition na_last :: "'a option \<Rightarrow> 'a \<Rightarrow> nat \<times> 'a" where
  "na_last c dflt = (case c of None \<Rightarrow> (1, dflt) | Some v \<Rightarrow> (0, v))"

definition sort_rows :: "fight_row list \<Rightarrow> fight_row list" where
  "sort_rows rows =
     sort_key (\<lambda>r. (na_last (DATE r) 0, na_last (EVENT r) [], na_last (BOUT r) [])) rows"

text \<open>
  The snapshot: one row for each key of \<open>ratings\<close>, in its order, then
  \<open>sort_values("rating", ascending=False)\<close>. The sort compares the rating alone; rows
  of equal rating keep the order they had, as the sort the source calls leaves them for a
  table this small.
\<close>

record rating_row =
  fighter_id :: pystr
  fighter_name :: pystr
  rating :: real
  fights :: nat
  wins :: nat
  losses :: nat
  draws :: nat
  row_first_date :: "int option"
  row_last_date :: "int option"

definition snapshot_row :: "elo_state \<Rightarrow> pystr \<times> real \<Rightarrow> rating_row" where
  "snapshot_row st kv =
     (let fid = fst kv
      in \<lparr>fighter_id = fid,
          fighter_name = (case names st fid of None \<Rightarrow> fid | Some n \<Rightarrow> n),
          rating = snd kv,
          fights = fights_ct st fid, wins = wins_ct st fid,
          losses = losses_ct st fid, draws = draws_ct st fid,
          row_first_date = (case first_date st fid of None \<Rightarrow> None | Some d \<Rightarrow> d),
          row_last_date = (case last_date st fid of None \<Rightarrow> None | Some d \<Rightarrow> d)\<rparr>)"

definition snapshot :: "elo_state \<Rightarrow> rating_row list" where
  "snapshot st = sort_key (\<lambda>r. - rating r) (map (snapshot_row st) (ratings st))"

text \<open>\<open>run_elo\<close> on a table that was read and has the required columns: the audit log
  and the snapshot it writes.\<close>

definition run_elo :: "fight_row list \<Rightarrow> EloConfig \<Rightarrow> error + (history_row list \<times> rating_row list)" where
  "run_elo df cfg =
     (case process_rows cfg init_state (sort_rows df) of
        Inl e \<Rightarrow> Inl e
      | Inr st \<Rightarrow> Inr (history_rows st, snapshot st))"

section \<open>The peak extractor (compute\_peak\_elo.py)\<close>











section \<open>Notions of the statements and sample data\<close>

text \<open>An audit record is zero-sum when the two ratings after the bout add up to what they
  added up to before it.\<close>

definition zero_sum :: "history_row \<Rightarrow> bool" where
  "zero_sum h = (post_rating_a h + post_rating_b h = pre_rating_a h + pre_rating_b h)"


text \<open>Ann knocks out Bea; a later bout of the two is overturned to a no-contest.\<close>

definition ko_row :: fight_row where
  "ko_row = \<lparr>winner_label = Some (py '' A''), METHOD = Some (py ''KO/TKO''), DETAILS = None,
     DATE = Some 1, EVENT = Some (py ''UFC 1''), BOUT = Some (py ''Ann vs. Bea''),
     fighter_a_name = Some (py ''Ann''), fighter_b_name = Some (py ''Bea''),
     fighter_a_url = None, fighter_b_url = None,
     method_class = Some (py ''finish''), method_multiplier = Some (6 / 5)\<rparr>"

definition nc_row :: fight_row where
  "nc_row = \<lparr>winner_label = Some (py ''NC''), METHOD = Some (py ''Overturned''), DETAILS = None,
     DATE = Some 2, EVENT = Some (py ''UFC 2''), BOUT = Some (py ''Ann vs. Bea''),
     fighter_a_name = Some (py ''Ann''), fighter_b_name = Some (py ''Bea''),
     fighter_a_url = None, fighter_b_url = None,
     method_class = Some (py ''nc''), method_multiplier = Some 1\<rparr>"

text \<open>The competitors of an audit log: the two identifiers of each record.\<close>

definition competitors :: "history_row list \<Rightarrow> pystr set" where
  "competitors hist = set (map fighter_a_id hist) \<union> set (map fighter_b_id hist)"

text \<open>The identifiers and ratings of the snapshot of a run, in its order; empty when the
  run raised.\<close>

definition snapshot_of :: "error + (history_row list \<times> rating_row list) \<Rightarrow> (pystr \<times> real) list" where
  "snapshot_of res =
     (case res of Inl e \<Rightarrow> [] | Inr (hist, snap) \<Rightarrow> map (\<lambda>r. (fighter_id r, rating r)) snap)"

text \<open>The order of the snapshot in the words of the specification: by rating descending,
  rows of equal rating by competitor key.\<close>

definition spec_snapshot_order :: "(pystr \<times> real) list \<Rightarrow> bool" where
  "spec_snapshot_order rows =
     sorted_wrt (\<lambda>x y. snd x > snd y \<or> (snd x = snd y \<and> fst x \<le> fst y)) rows"

text \<open>Zed and Abe, both new, draw.\<close>

definition tie_row :: fight_row where
  "tie_row = \<lparr>winner_label = Some (py ''draw''), METHOD = Some (py ''Decision - Majority''),
     DETAILS = None, DATE = Some 1, EVENT = Some (py ''UFC 1''), BOUT = Some (py ''Zed vs. Abe''),
     fighter_a_name = Some (py ''Zed''), fighter_b_name = Some (py ''Abe''),
     fighter_a_url = None, fighter_b_url = None,
     method_class = Some (py ''draw''), method_multiplier = Some 1\<rparr>"

text \<open>The keys of \<open>ratings\<close> are distinct and are the competitors of the audit log.\<close>

definition ratings_ok :: "elo_state \<Rightarrow> bool" where
  "ratings_ok st = (distinct (map fst (ratings st)) \<and>
     set (map fst (ratings st)) = competitors (history_rows st))"




text \<open>Zed then draws with Cat, who is new as well.\<close>

definition tie_row2 :: fight_row where
  "tie_row2 = \<lparr>winner_label = Some (py ''draw''), METHOD = Some (py ''Decision - Split''),
     DETAILS = None, DATE = Some 2, EVENT = Some (py ''UFC 2''), BOUT = Some (py ''Zed vs. Cat''),
     fighter_a_name = Some (py ''Zed''), fighter_b_name = Some (py ''Cat''),
     fighter_a_url = None, fighter_b_url = None,
     method_class = Some (py ''draw''), method_multiplier = Some 1\<rparr>"






text \<open>Two decisions for the classifier: a unanimous one with a wide card, a split one with
  three wide cards.\<close>

definition example_row :: bout_row where
  "example_row = \<lparr>winner_label = Some (py ''A''), METHOD = Some (py ''Decision -  Unanimous ''),
     DETAILS = Some (py ''47 - 48,49 - 46,47 - 48'')\<rparr>"

definition split_row :: bout_row where
  "split_row = \<lparr>winner_label = Some (py ''b''), METHOD = Some (py ''Decision - Split''),
     DETAILS = Some (py ''50 - 45,45 - 50,50 - 45'')\<rparr>"


section \<open>Normalisation is idempotent\<close>

lemma last_dropWhile_keep:
  "xs \<noteq> [] \<Longrightarrow> \<not> P (last xs) \<Longrightarrow> dropWhile P xs \<noteq> [] \<and> last (dropWhile P xs) = last xs"
  by (induction xs) (auto split: if_splits)

lemma dropWhile_head_id: "xs = [] \<or> \<not> P (hd xs) \<Longrightarrow> dropWhile P xs = xs"
  by (cases xs) auto

lemma collapse_ws_head:
  "s = [] \<or> \<not> is_space (hd s) \<Longrightarrow> collapse_ws s = [] \<or> \<not> is_space (hd (collapse_ws s))"
  by (cases s) auto

lemma collapse_ws_Nil_iff: "collapse_ws s = [] \<longleftrightarrow> s = []"
  by (cases s) auto

lemma collapse_ws_last:
  "s \<noteq> [] \<Longrightarrow> \<not> is_space (last s) \<Longrightarrow> \<not> is_space (last (collapse_ws s))"
proof (induction s rule: collapse_ws.induct)
  case 1
  then show ?case by simp
next
  case (2 c cs)
  show ?case
  proof (cases "is_space c")
    case True
    with 2 have cs: "cs \<noteq> []" by auto
    with 2 have l: "\<not> is_space (last cs)" by simp
    from last_dropWhile_keep [of cs is_space] cs l
    have u: "dropWhile is_space cs \<noteq> []" "last (dropWhile is_space cs) = last cs" by auto
    from 2(1) [OF True u(1)] l u(2)
    have "\<not> is_space (last (collapse_ws (dropWhile is_space cs)))" by simp
    moreover have "collapse_ws (dropWhile is_space cs) \<noteq> []"
      using u(1) collapse_ws_Nil_iff by blast
    ultimately show ?thesis using True by (simp del: dropWhile_eq_Nil_conv)
  next
    case False
    show ?thesis
    proof (cases "cs = []")
      case True
      with False show ?thesis by simp
    next
      case ne: False
      from "2.prems" ne have "\<not> is_space (last cs)" by simp
      from 2(2) [OF False ne this] False ne show ?thesis by (simp add: collapse_ws_Nil_iff)
    qed
  qed
qed

lemma collapse_ws_idem: "collapse_ws (collapse_ws s) = collapse_ws s"
proof (induction s rule: collapse_ws.induct)
  case 1
  then show ?case by simp
next
  case (2 c cs)
  show ?case
  proof (cases "is_space c")
    case True
    let ?u = "dropWhile is_space cs"
    have "?u = [] \<or> \<not> is_space (hd ?u)" using hd_dropWhile [of is_space cs] by blast
    from collapse_ws_head [OF this]
    have "dropWhile is_space (collapse_ws ?u) = collapse_ws ?u" by (rule dropWhile_head_id)
    moreover have "is_space 32" by (simp add: is_space_def)
    ultimately show ?thesis using True 2(1) [OF True] by simp
  next
    case False
    then show ?thesis using 2(2) [OF False] by simp
  qed
qed

lemma strip_head: "strip t = [] \<or> \<not> is_space (hd (strip t))"
proof (cases "strip t = []")
  case True
  then show ?thesis by simp
next
  case False
  let ?d = "dropWhile is_space t"
  let ?e = "dropWhile is_space (rev ?d)"
  from False have e: "?e \<noteq> []" by (simp add: strip_def)
  then have d: "?d \<noteq> []" by (metis dropWhile.simps(1) rev.simps(1))
  have "hd (strip t) = last ?e" using e by (simp add: strip_def hd_rev)
  also have "suffix ?e (rev ?d)" by (rule suffix_dropWhile)
  then have "last ?e = last (rev ?d)" using e by (metis suffix_def last_appendR)
  also have "\<dots> = hd ?d" using d by (simp add: last_rev)
  finally show ?thesis using hd_dropWhile [OF d] by simp
qed

lemma strip_last: "strip t = [] \<or> \<not> is_space (last (strip t))"
proof (cases "strip t = []")
  case True
  then show ?thesis by simp
next
  case False
  let ?e = "dropWhile is_space (rev (dropWhile is_space t))"
  from False have e: "?e \<noteq> []" by (simp add: strip_def)
  have "last (strip t) = hd ?e" using e by (simp add: strip_def last_rev)
  then show ?thesis using hd_dropWhile [OF e] by simp
qed

lemma strip_fixed:
  assumes "s = [] \<or> \<not> is_space (hd s)" and "s = [] \<or> \<not> is_space (last s)"
  shows "strip s = s"
proof (cases "s = []")
  case True
  then show ?thesis by (simp add: strip_def)
next
  case False
  with assms have h: "\<not> is_space (hd s)" and l: "\<not> is_space (last s)" by auto
  have 1: "dropWhile is_space s = s" using h by (intro dropWhile_head_id) simp
  have "\<not> is_space (hd (rev s))" using l False by (simp add: hd_rev)
  then have 2: "dropWhile is_space (rev s) = rev s" by (intro dropWhile_head_id) simp
  show ?thesis by (simp add: strip_def 1 2)
qed

lemma strip_collapse_strip: "strip (collapse_ws (strip t)) = collapse_ws (strip t)"
proof (rule strip_fixed)
  show "collapse_ws (strip t) = [] \<or> \<not> is_space (hd (collapse_ws (strip t)))"
    by (rule collapse_ws_head) (rule strip_head)
  show "collapse_ws (strip t) = [] \<or> \<not> is_space (last (collapse_ws (strip t)))"
    using strip_last [of t] collapse_ws_last [of "strip t"] by (auto simp: collapse_ws_Nil_iff)
qed

lemma normalize_text_idem: "normalize_text (Some (normalize_text x)) = normalize_text x"
  by (cases x) (simp_all add: normalize_text_def strip_def strip_collapse_strip [unfolded strip_def] collapse_ws_idem)

section \<open>Properties of the classifier\<close>

lemma decision_type_split:
  "method_decision_type (normalize_text (METHOD row)) = ''split'' \<longleftrightarrow> contains (py ''split'') (method_text row)"
  by (simp add: method_decision_type_def method_text_def normalize_text_idem Let_def)

lemma decision_type_majority:
  "method_decision_type (normalize_text (METHOD row)) = ''majority'' \<longleftrightarrow>
     \<not> contains (py ''split'') (method_text row) \<and> contains (py ''majority'') (method_text row)"
  by (simp add: method_decision_type_def method_text_def normalize_text_idem Let_def)

lemma decision_type_unanimous:
  "method_decision_type (normalize_text (METHOD row)) = ''unanimous'' \<longleftrightarrow>
     \<not> contains (py ''split'') (method_text row) \<and> \<not> contains (py ''majority'') (method_text row)
     \<and> contains (py ''unanimous'') (method_text row)"
  by (simp add: method_decision_type_def method_text_def normalize_text_idem Let_def)

lemma is_decision_text:
  "method_is_decision (normalize_text (METHOD row)) \<longleftrightarrow> contains (py ''decision'') (method_text row)"
  by (simp add: method_is_decision_def method_text_def normalize_text_idem)

lemma is_finish_text:
  "method_is_finish (normalize_text (METHOD row)) \<longleftrightarrow>
     list_ex (\<lambda>tok. contains tok (method_text row)) FINISH_TOKENS"
  by (simp add: method_is_finish_def method_text_def normalize_text_idem)

text \<open>
  Claim C9. For every row and every choice of multipliers, \<open>classify_row\<close> never answers
  with the basis \<open>method_finish_fallback\<close>: the last test for a finish keyword reads the
  same normalised, lower-cased method text as \<open>method_is_finish\<close> did, and it is reached
  only when the method is no decision, so the finish rule has already answered.
\<close>

theorem no_finish_fallback:
  "basis (classify_row row m_finish m_dom m_dec) \<noteq> ''method_finish_fallback''"
proof -
  have fb: "list_ex (\<lambda>tok. contains tok (lower (normalize_text (METHOD row)))) FINISH_TOKENS
      \<longleftrightarrow> method_is_finish (normalize_text (METHOD row))"
    by (simp add: is_finish_text method_text_def)
  show ?thesis
    unfolding classify_row_def Let_def fb basis_def
    by (simp split: if_splits)
qed

text \<open>
  Claim C7. A bout that is no draw and no no-contest, whose method text contains
  \<open>decision\<close> and also \<open>split\<close> or \<open>majority\<close>, is classified \<open>decision_normal\<close>
  with the normal-decision multiplier and never \<open>decision_dominant\<close>, whatever the
  scorecard detail says.
\<close>

theorem split_majority_normal:
  assumes "outcome_text row \<noteq> py ''draw''" and "outcome_text row \<noteq> py ''nc''"
    and "contains (py ''decision'') (method_text row)"
    and "contains (py ''split'') (method_text row) \<or> contains (py ''majority'') (method_text row)"
  shows "category (classify_row row m_finish m_dom m_dec) = ''decision_normal'' \<and>
         multiplier (classify_row row m_finish m_dom m_dec) = m_dec \<and>
         category (classify_row row m_finish m_dom m_dec) \<noteq> ''decision_dominant''"
proof -
  have t: "method_decision_type (normalize_text (METHOD row)) = ''split'' \<or>
           method_decision_type (normalize_text (METHOD row)) = ''majority''"
    using assms(4) by (auto simp: decision_type_split decision_type_majority)
  have d: "method_is_decision (normalize_text (METHOD row))"
    using assms(3) by (simp add: is_decision_text)
  show ?thesis
    using assms(1,2) d t
    by (auto simp: classify_row_def Let_def category_def multiplier_def outcome_text_def)
qed

text \<open>
  Claim C2. A bout that is no draw and no no-contest, whose method text contains
  \<open>decision\<close> and neither \<open>split\<close> nor \<open>majority\<close>: with a parsed margin of 3 or more
  it is \<open>decision_dominant\<close> on the basis \<open>details_any_margin_ge_3\<close>; else with two
  margins of 2 or more \<open>decision_dominant\<close> on \<open>details_two_cards_ge_2\<close>; else with any
  margin parsed \<open>decision_normal\<close> on \<open>details_small_margins\<close>; with no margin parsed,
  \<open>decision_dominant\<close> on \<open>method_unanimous_no_details\<close> when the method text contains
  \<open>unanimous\<close>, and \<open>decision_normal\<close> on \<open>method_generic_decision\<close> otherwise.
\<close>

theorem unanimous_branch:
  assumes "outcome_text row \<noteq> py ''draw''" and "outcome_text row \<noteq> py ''nc''"
    and "contains (py ''decision'') (method_text row)"
    and "\<not> contains (py ''split'') (method_text row)"
    and "\<not> contains (py ''majority'') (method_text row)"
  shows "(let ms = parse_scorecard_margins (normalize_text (DETAILS row));
              c = classify_row row m_finish m_dom m_dec
          in (category c, basis c) =
             (if list_ex (\<lambda>m. 3 \<le> m) ms then (''decision_dominant'', ''details_any_margin_ge_3'')
              else if 2 \<le> length (filter (\<lambda>m. 2 \<le> m) ms)
                then (''decision_dominant'', ''details_two_cards_ge_2'')
              else if ms \<noteq> [] then (''decision_normal'', ''details_small_margins'')
              else if contains (py ''unanimous'') (method_text row)
                then (''decision_dominant'', ''method_unanimous_no_details'')
              else (''decision_normal'', ''method_generic_decision'')))"
proof -
  let ?m = "normalize_text (METHOD row)"
  have d: "method_is_decision ?m"
    using assms(3) by (simp add: is_decision_text)
  have t: "method_decision_type ?m \<noteq> ''split''" "method_decision_type ?m \<noteq> ''majority''"
    using assms(4,5) by (simp_all add: decision_type_split decision_type_majority)
  have u: "method_decision_type ?m = ''unanimous'' \<longleftrightarrow> contains (py ''unanimous'') (method_text row)"
    using assms(4,5) by (simp add: decision_type_unanimous)
  have e: "\<not> list_ex (\<lambda>m. 3 \<le> m) ([]::int list)" "\<not> 2 \<le> length (filter (\<lambda>m. 2 \<le> m) ([]::int list))"
    by simp_all
  show ?thesis
    using assms(1,2) d t u
    by (cases "parse_scorecard_margins (normalize_text (DETAILS row)) = []")
       (simp_all add: classify_row_def Let_def category_def basis_def outcome_text_def)
qed

lemmas text_eval = py_def normalize_text_def strip_def is_space_def lower_def lower_cp_def
  is_digit_def is_dash_def match_score_def Let_def replace_comma_def int_of_digits_def
  parse_scorecard_margins_def

lemma ex_method: "method_text example_row = py ''decision - unanimous''"
  by (simp add: method_text_def example_row_def text_eval)

lemma ex_outcome: "outcome_text example_row = py ''a''"
  by (simp add: outcome_text_def example_row_def text_eval)

lemma ex_margins: "parse_scorecard_margins (normalize_text (DETAILS example_row)) = [1, 3, 1]"
  by (simp add: example_row_def text_eval)

text \<open>The unanimous decision of the specification, with the cards 47-48, 49-46, 47-48.\<close>

theorem unanimous_branch_witness:
  "category (classify_row example_row (6/5) (11/10) 1) = ''decision_dominant'' \<and>
   basis (classify_row example_row (6/5) (11/10) 1) = ''details_any_margin_ge_3''"
proof -
  have h1: "outcome_text example_row \<noteq> py ''draw''" and h2: "outcome_text example_row \<noteq> py ''nc''"
    by (simp_all add: ex_outcome py_def)
  have h3: "contains (py ''decision'') (method_text example_row)"
    and h4: "\<not> contains (py ''split'') (method_text example_row)"
    and h5: "\<not> contains (py ''majority'') (method_text example_row)"
    by (simp_all add: ex_method py_def)
  from unanimous_branch [OF h1 h2 h3 h4 h5, of "6/5" "11/10" 1]
  show ?thesis by (simp add: ex_margins Let_def)
qed

text \<open>A split decision whose three cards all have the margin 5.\<close>

theorem split_majority_normal_witness:
  "category (classify_row split_row (6/5) (11/10) 1) = ''decision_normal'' \<and>
   multiplier (classify_row split_row (6/5) (11/10) 1) = 1 \<and>
   parse_scorecard_margins (normalize_text (DETAILS split_row)) = [5, 5, 5]"
proof -
  have m: "method_text split_row = py ''decision - split''"
    by (simp add: method_text_def split_row_def text_eval)
  have o: "outcome_text split_row = py ''b''"
    by (simp add: outcome_text_def split_row_def text_eval)
  have h1: "outcome_text split_row \<noteq> py ''draw''" and h2: "outcome_text split_row \<noteq> py ''nc''"
    by (simp_all add: o py_def)
  have h3: "contains (py ''decision'') (method_text split_row)"
    and h4: "contains (py ''split'') (method_text split_row) \<or> contains (py ''majority'') (method_text split_row)"
    by (simp_all add: m py_def)
  have d: "parse_scorecard_margins (normalize_text (DETAILS split_row)) = [5, 5, 5]"
    by (simp add: split_row_def text_eval)
  from split_majority_normal [OF h1 h2 h3 h4, of "6/5" "11/10" 1] d
  show ?thesis by simp
qed

section \<open>Properties of the rating engine\<close>

lemma outcome_scores_sum:
  "outcome_scores w = Some (s_a, s_b) \<Longrightarrow> s_a + s_b = 1"
  by (auto simp: outcome_scores_def Let_def split: if_splits)

lemma outcome_scores_unresolved:
  "lower (strip w) = py ''nc'' \<or> lower (strip w) = py ''unknown'' \<Longrightarrow> outcome_scores w = None"
  by (auto simp: outcome_scores_def Let_def py_def)

text \<open>
  Claim C5. A bout whose outcome label is \<open>nc\<close> or \<open>unknown\<close> (after the trimming and
  lower-casing that \<open>outcome_scores\<close> does) leaves the whole state of the engine as it
  was: ratings, names, the four counters, first and last dates and the audit log.
\<close>

theorem unresolved_outcome_skipped:
  assumes "lower (strip (str_cell (winner_label row))) = py ''nc'' \<or>
           lower (strip (str_cell (winner_label row))) = py ''unknown''"
  shows "process_row cfg st row = Inr st"
  using outcome_scores_unresolved [OF assms] by (simp add: process_row_def)

lemma process_row_history:
  assumes "process_row cfg st row = Inr st'"
  shows "history_rows st' = history_rows st \<or>
         (\<exists>h. history_rows st' = history_rows st @ [h] \<and> zero_sum h)"
proof (cases "outcome_scores (str_cell (winner_label row))")
  case None
  with assms show ?thesis by (simp add: process_row_def)
next
  case (Some sc)
  obtain s_a s_b where sc: "sc = (s_a, s_b)" by (cases sc)
  from Some sc have sum: "s_a + s_b = 1" by (simp add: outcome_scores_sum)
  have alg: "\<And>ra rb k p. ra + k * (s_a - p) + (rb + k * (s_b - (1 - p))) = ra + rb + k * (s_a + s_b - 1)"
    by (simp add: algebra_simps)
  from assms Some sc show ?thesis
    by (auto simp: process_row_def Let_def zero_sum_def alg sum split: prod.splits sum.splits)
qed

lemma process_rows_zero_sum:
  "process_rows cfg st rows = Inr st' \<Longrightarrow> list_all zero_sum (history_rows st)
     \<Longrightarrow> list_all zero_sum (history_rows st')"
proof (induction rows arbitrary: st)
  case Nil
  then show ?case by simp
next
  case (Cons row rows)
  from Cons.prems(1) obtain st1 where 1: "process_row cfg st row = Inr st1"
    and 2: "process_rows cfg st1 rows = Inr st'"
    by (auto split: sum.splits)
  from process_row_history [OF 1] Cons.prems(2)
  have "list_all zero_sum (history_rows st1)" by auto
  from Cons.IH [OF 2 this] show ?case .
qed

text \<open>
  Claim C4. In exact arithmetic every record of the audit log of a run is zero-sum: the
  two ratings after the bout add up to the two before it, so the change of B is the
  negative of the change of A, for any outcome, ratings, multiplier and configuration.
\<close>

theorem rating_update_zero_sum:
  assumes "process_rows cfg init_state rows = Inr st" and "h \<in> set (history_rows st)"
  shows "post_rating_a h + post_rating_b h = pre_rating_a h + pre_rating_b h \<and>
         post_rating_b h - pre_rating_b h = - (post_rating_a h - pre_rating_a h)"
proof -
  have "list_all zero_sum (history_rows st)"
    by (rule process_rows_zero_sum [OF assms(1)]) (simp add: init_state_def)
  with assms(2) have "zero_sum h" by (simp add: list_all_iff)
  then show ?thesis by (simp add: zero_sum_def)
qed



text \<open>One processed bout of two different competitors: each has one fight more, and one
  more among wins, losses and draws.\<close>

lemma process_row_increments:
  assumes "process_row cfg st row = Inr st'"
    and "outcome_scores (str_cell (winner_label row)) = Some sc"
    and "fst (choose_fighter_id row ''a'') = fa" and "fst (choose_fighter_id row ''b'') = fb"
    and "fa \<noteq> fb"
  shows "fights_ct st' fa = fights_ct st fa + 1 \<and> fights_ct st' fb = fights_ct st fb + 1 \<and>
         wins_ct st' fa + losses_ct st' fa + draws_ct st' fa =
           wins_ct st fa + losses_ct st fa + draws_ct st fa + 1 \<and>
         wins_ct st' fb + losses_ct st' fb + draws_ct st' fb =
           wins_ct st fb + losses_ct st fb + draws_ct st fb + 1"
  using assms
  by (auto simp: process_row_def Let_def incr_def split: prod.splits sum.splits if_splits)



lemma outcome_scores_a: "lower (strip w) = py ''a'' \<Longrightarrow> outcome_scores w = Some (1, 0)"
  by (simp add: outcome_scores_def)

lemma fresh_ratings:
  "ratings_get base (ratings_touch base [] a) a = base"
  "ratings_get base (ratings_touch base (ratings_touch base [] a) b) b = base"
  by (simp_all add: ratings_get_def ratings_touch_def)


subsection \<open>The sample bouts evaluated\<close>

lemmas engine_eval = py_def norm_def strip_def is_space_def lower_def lower_cp_def
  key_from_name_def choose_fighter_id_def str_cell_def Let_def

lemma ko_label: "lower (strip (str_cell (winner_label ko_row))) = py ''a''"
  by (simp add: ko_row_def engine_eval)

lemma ko_ids:
  "choose_fighter_id ko_row ''a'' = (py ''ann'', py ''Ann'')"
  "choose_fighter_id ko_row ''b'' = (py ''bea'', py ''Bea'')"
  by (simp_all add: ko_row_def engine_eval)


lemma ko_run:
  "\<exists>st h. process_rows default_config init_state [ko_row] = Inr st \<and> history_rows st = [h] \<and>
     post_rating_a h = 7572 / 5 \<and> post_rating_b h = 7428 / 5 \<and>
     fights_ct st (py ''ann'') = 1 \<and> wins_ct st (py ''ann'') = 1 \<and>
     losses_ct st (py ''ann'') = 0 \<and> draws_ct st (py ''ann'') = 0"
proof -
  have p: "logistic_prob 1500 1500 350 = Inr (1 / 2)"
    by (simp add: logistic_prob_def)
  have sc: "outcome_scores (str_cell (winner_label ko_row)) = Some (1, 0)"
    by (rule outcome_scores_a [OF ko_label])
  have mm: "method_multiplier ko_row = Some (6 / 5)" by (simp add: ko_row_def)
  have ne: "py ''ann'' \<noteq> py ''bea''" by (simp add: py_def)
  show ?thesis
    using ne
    by (simp add: process_row_def sc mm ko_ids Let_def default_config_def init_state_def
          fresh_ratings p incr_def)
qed


theorem rating_update_zero_sum_witness:
  "\<exists>st h. process_rows default_config init_state [ko_row] = Inr st \<and>
     h \<in> set (history_rows st) \<and>
     post_rating_a h = 7572 / 5 \<and> post_rating_b h = 7428 / 5 \<and>
     post_rating_a h + post_rating_b h = pre_rating_a h + pre_rating_b h"
proof -
  from ko_run obtain st h where r: "process_rows default_config init_state [ko_row] = Inr st"
    and h: "history_rows st = [h]"
    and v: "post_rating_a h = 7572 / 5" "post_rating_b h = 7428 / 5"
    by blast
  from h have "h \<in> set (history_rows st)" by simp
  with rating_update_zero_sum [OF r this] r v show ?thesis by blast
qed

theorem unresolved_outcome_skipped_witness:
  "process_row default_config init_state nc_row = Inr init_state"
proof -
  have "lower (strip (str_cell (winner_label nc_row))) = py ''nc''"
    by (simp add: nc_row_def engine_eval)
  then show ?thesis by (intro unresolved_outcome_skipped) simp
qed


subsection \<open>The snapshot\<close>

lemma touch_keys:
  "set (map fst (ratings_touch base rs fid)) = insert fid (set (map fst rs))"
  by (auto simp: ratings_touch_def map_of_eq_None_iff split: option.splits dest: map_of_SomeD
           intro: rev_image_eqI)

lemma touch_distinct:
  "distinct (map fst rs) \<Longrightarrow> distinct (map fst (ratings_touch base rs fid))"
  by (auto simp: ratings_touch_def map_of_eq_None_iff split: option.splits)

lemma update_keys_set:
  "set (map fst (AList.update k v al)) = insert k (set (map fst al))"
  using dom_update [of k v al] by auto

lemma process_row_ratings_ok:
  assumes "process_row cfg st row = Inr st'" and "ratings_ok st"
  shows "ratings_ok st'"
proof (cases "outcome_scores (str_cell (winner_label row))")
  case None
  with assms show ?thesis by (simp add: process_row_def)
next
  case (Some sc)
  obtain s_a s_b where sc: "sc = (s_a, s_b)" by (cases sc)
  obtain fid_a name_a where ca: "choose_fighter_id row ''a'' = (fid_a, name_a)"
    by (cases "choose_fighter_id row ''a''")
  obtain fid_b name_b where cb: "choose_fighter_id row ''b'' = (fid_b, name_b)"
    by (cases "choose_fighter_id row ''b''")
  let ?rs2 = "ratings_touch (base_rating cfg) (ratings_touch (base_rating cfg) (ratings st) fid_a) fid_b"
  from assms(1) Some sc ca cb obtain va vb h where
    r: "ratings st' = AList.update fid_b vb (AList.update fid_a va ?rs2)"
    and hr: "history_rows st' = history_rows st @ [h]"
    and ids: "fighter_a_id h = fid_a" "fighter_b_id h = fid_b"
    by (auto simp: process_row_def Let_def split: sum.splits prod.splits)
  from assms(2) have d: "distinct (map fst (ratings st))"
    and k: "set (map fst (ratings st)) = competitors (history_rows st)"
    by (simp_all add: ratings_ok_def)
  have "distinct (map fst (ratings st'))"
    unfolding r by (intro distinct_update touch_distinct d)
  moreover have "set (map fst (ratings st')) = competitors (history_rows st')"
    unfolding r hr update_keys_set touch_keys k using ids by (auto simp: competitors_def)
  ultimately show ?thesis by (simp add: ratings_ok_def)
qed

lemma process_rows_ratings_ok:
  "process_rows cfg st rows = Inr st' \<Longrightarrow> ratings_ok st \<Longrightarrow> ratings_ok st'"
proof (induction rows arbitrary: st)
  case Nil
  then show ?case by simp
next
  case (Cons row rows)
  from Cons.prems(1) obtain st1 where 1: "process_row cfg st row = Inr st1"
    and 2: "process_rows cfg st1 rows = Inr st'"
    by (auto split: sum.splits)
  from Cons.IH [OF 2 process_row_ratings_ok [OF 1 Cons.prems(2)]] show ?case .
qed

lemma distinct_map_insort_key:
  "distinct (map g (insort_key f x xs)) \<longleftrightarrow> g x \<notin> g ` set xs \<and> distinct (map g xs)"
  by (induction xs) (auto simp: set_insort_key)

lemma distinct_map_sort_key:
  "distinct (map g (sort_key f xs)) \<longleftrightarrow> distinct (map g xs)"
  by (induction xs) (simp_all add: distinct_map_insort_key)

lemma sorted_neg_descending:
  "sorted (map (\<lambda>x. - f x) xs) \<Longrightarrow> sorted_wrt (\<ge>) (map (f :: 'a \<Rightarrow> real) xs)"
  by (simp add: sorted_wrt_map)

lemma snapshot_ids: "map fighter_id (map (snapshot_row st) rs) = map fst rs"
  by (simp add: snapshot_row_def Let_def)

text \<open>
  Claim C6, as the code has it. The snapshot of a run has exactly one row for each
  competitor of the audit log, that is for each competitor that appeared in a rating
  update, and its rows are in descending order of rating. The sort compares the rating
  alone: nothing orders rows of equal rating by competitor key.
\<close>

theorem snapshot_one_row_each_by_rating:
  assumes "run_elo df cfg = Inr (hist, snap)"
  shows "distinct (map fighter_id snap) \<and>
         set (map fighter_id snap) = competitors hist \<and>
         sorted_wrt (\<ge>) (map rating snap)"
proof -
  from assms obtain st where r: "process_rows cfg init_state (sort_rows df) = Inr st"
    and h: "hist = history_rows st" and s: "snap = snapshot st"
    by (auto simp: run_elo_def split: sum.splits)
  have "ratings_ok init_state" by (simp add: ratings_ok_def init_state_def competitors_def)
  from process_rows_ratings_ok [OF r this]
  have d: "distinct (map fst (ratings st))"
    and k: "set (map fst (ratings st)) = competitors hist"
    by (simp_all add: ratings_ok_def h)
  have 1: "distinct (map fighter_id snap)"
    unfolding s snapshot_def distinct_map_sort_key snapshot_ids by (rule d)
  have e: "set snap = set (map (snapshot_row st) (ratings st))"
    by (simp add: s snapshot_def)
  have "set (map fighter_id snap) = set (map fighter_id (map (snapshot_row st) (ratings st)))"
    by (simp only: set_map e)
  then have 2: "set (map fighter_id snap) = competitors hist"
    unfolding snapshot_ids k .
  have 3: "sorted_wrt (\<ge>) (map rating snap)"
    unfolding s snapshot_def by (rule sorted_neg_descending) (rule sorted_sort_key)
  from 1 2 3 show ?thesis by simp
qed

lemma tie_ids:
  "choose_fighter_id tie_row ''a'' = (py ''zed'', py ''Zed'')"
  "choose_fighter_id tie_row ''b'' = (py ''abe'', py ''Abe'')"
  "choose_fighter_id tie_row2 ''a'' = (py ''zed'', py ''Zed'')"
  "choose_fighter_id tie_row2 ''b'' = (py ''cat'', py ''Cat'')"
  by (simp_all add: tie_row_def tie_row2_def engine_eval)

lemma tie_scores:
  "outcome_scores (str_cell (winner_label tie_row)) = Some (1 / 2, 1 / 2)"
  "outcome_scores (str_cell (winner_label tie_row2)) = Some (1 / 2, 1 / 2)"
  by (simp_all add: tie_row_def tie_row2_def outcome_scores_def engine_eval)

lemma tie_mult:
  "method_multiplier tie_row = Some 1" "method_multiplier tie_row2 = Some 1"
  by (simp_all add: tie_row_def tie_row2_def)

lemma prob_even: "logistic_prob 1500 1500 350 = Inr (1 / 2)"
  by (simp add: logistic_prob_def)

lemma tie_names: "py ''zed'' \<noteq> py ''abe''" "py ''zed'' \<noteq> py ''cat''" "py ''abe'' \<noteq> py ''cat''"
  "py ''abe'' \<noteq> py ''zed''" "py ''cat'' \<noteq> py ''zed''" "py ''cat'' \<noteq> py ''abe''"
  by (simp_all add: py_def)

lemmas run_eval = process_row_def Let_def default_config_def init_state_def
  ratings_touch_def ratings_get_def

lemma tie_run:
  "\<exists>st. process_rows default_config init_state [tie_row] = Inr st \<and>
     ratings st = [(py ''zed'', 1500), (py ''abe'', 1500)] \<and>
     map fst (ratings st) = [py ''zed'', py ''abe'']"
  using tie_names
  by (simp add: run_eval tie_ids tie_scores tie_mult prob_even)

text \<open>
  Claim C6 as the specification states it fails: after the one drawn bout of Zed and Abe
  both rows have the rating 1500 and the row of \<open>zed\<close> precedes the row of \<open>abe\<close>.
\<close>

theorem snapshot_ties_counterexample:
  "snapshot_of (run_elo [tie_row] default_config) = [(py ''zed'', 1500), (py ''abe'', 1500)] \<and>
   \<not> spec_snapshot_order (snapshot_of (run_elo [tie_row] default_config))"
proof -
  have 1: "snapshot_of (run_elo [tie_row] default_config) = [(py ''zed'', 1500), (py ''abe'', 1500)]"
    using tie_names
    by (simp add: snapshot_of_def run_elo_def sort_rows_def snapshot_def snapshot_row_def
          run_eval tie_ids tie_scores tie_mult prob_even)
  have 2: "\<not> py ''zed'' \<le> py ''abe''" by (simp add: py_def)
  from 1 2 show ?thesis by (simp add: spec_snapshot_order_def)
qed


subsection \<open>The order of the bouts\<close>









theorem snapshot_one_row_each_by_rating_witness:
  "\<exists>hist snap. run_elo [ko_row] default_config = Inr (hist, snap) \<and>
     map fighter_id snap = [py ''ann'', py ''bea''] \<and>
     map rating snap = [7572 / 5, 7428 / 5] \<and>
     distinct (map fighter_id snap) \<and> set (map fighter_id snap) = competitors hist \<and>
     sorted_wrt (\<ge>) (map rating snap)"
proof -
  have sc: "outcome_scores (str_cell (winner_label ko_row)) = Some (1, 0)"
    by (rule outcome_scores_a [OF ko_label])
  have mm: "method_multiplier ko_row = Some (6 / 5)" by (simp add: ko_row_def)
  have ne: "py ''ann'' \<noteq> py ''bea''" "py ''bea'' \<noteq> py ''ann''" by (simp_all add: py_def)
  have "\<exists>hist snap. run_elo [ko_row] default_config = Inr (hist, snap) \<and>
     map fighter_id snap = [py ''ann'', py ''bea''] \<and> map rating snap = [7572 / 5, 7428 / 5]"
    using ne
    by (simp add: run_elo_def sort_rows_def snapshot_def snapshot_row_def run_eval
          ko_ids sc mm prob_even)
  then obtain hist snap where r: "run_elo [ko_row] default_config = Inr (hist, snap)"
    and v: "map fighter_id snap = [py ''ann'', py ''bea'']" "map rating snap = [7572 / 5, 7428 / 5]"
    by auto
  from snapshot_one_row_each_by_rating [OF r] have
    "distinct (map fighter_id snap) \<and> set (map fighter_id snap) = competitors hist \<and>
     sorted_wrt (\<ge>) (map rating snap)" .
  with r v show ?thesis by (intro exI [of _ hist] exI [of _ snap]) simp
qed

section \<open>Properties of the peak extractor\<close>












end
